theory Spec2Isabelle
  imports Main "HOL-Library.AList"
begin

section \<open>Values of the state tree\<close>

text \<open>
  The state tree of \<^verbatim>\<open>StateManager\<close> (lib/juris.0.8.1.js) holds plain JavaScript data.
  The model covers \<^verbatim>\<open>undefined\<close>, \<^verbatim>\<open>null\<close>, booleans, (integral) numbers, strings,
  symbols (identified by their allocation number) and plain objects. An object is the
  list of its own enumerable properties; \<^verbatim>\<open>obj[k] = v\<close> is \<open>AList.update\<close>, which
  overwrites an existing key in place and appends a new one.

  Modelling boundaries: values are passed by value (no aliasing between an object held
  by a caller and the copy stored in the tree); property lookup sees own properties only
  (members inherited from the built-in prototypes are outside the model); arrays,
  functions, \<^verbatim>\<open>NaN\<close> and fractional numbers are outside the model; a string is a list of
  8-bit characters.
\<close>

datatype jv =
    JUndef
  | JNull
  | JBool bool
  | JNum int
  | JStr string
  | JSym nat
  | JObj "(string \<times> jv) list"

datatype jstype = TUndefined | TObject | TBoolean | TNumber | TString | TSymbol

fun typeof :: "jv \<Rightarrow> jstype" where
  "typeof JUndef = TUndefined"
| "typeof JNull = TObject"
| "typeof (JBool _) = TBoolean"
| "typeof (JNum _) = TNumber"
| "typeof (JStr _) = TString"
| "typeof (JSym _) = TSymbol"
| "typeof (JObj _) = TObject"

text \<open>\<^verbatim>\<open>x == null\<close>: true for \<^verbatim>\<open>null\<close> and \<^verbatim>\<open>undefined\<close>.\<close>

fun loose_null :: "jv \<Rightarrow> bool" where
  "loose_null JUndef = True"
| "loose_null JNull = True"
| "loose_null _ = False"

text \<open>
  \<^verbatim>\<open>a === b\<close>. Primitives compare by value, symbols by identity. Objects compare by
  reference, which a value model does not have: two object operands count as distinct
  references, so that \<open>deepEquals\<close> below always goes on to the structural comparison
  (which answers true on identical content, lemma \<open>deepEquals_refl\<close>).
\<close>

fun strict_eq :: "jv \<Rightarrow> jv \<Rightarrow> bool" where
  "strict_eq (JObj _) (JObj _) = False"
| "strict_eq a b = (a = b)"

text \<open>Truthiness, as used by \<^verbatim>\<open>value?.then\<close> tests.\<close>

fun truthy :: "jv \<Rightarrow> bool" where
  "truthy JUndef = False"
| "truthy JNull = False"
| "truthy (JBool b) = b"
| "truthy (JNum n) = (n \<noteq> 0)"
| "truthy (JStr s) = (s \<noteq> [])"
| "truthy (JSym _) = True"
| "truthy (JObj _) = True"

text \<open>
  \<^verbatim>\<open>
  const deepEquals = (a, b) => {
    if (a === b) return true;
    if (a == null || b == null || typeof a !== typeof b) return false;
    if (typeof a === 'object') {
      if (Array.isArray(a) !== Array.isArray(b)) return false;
      const keysA = Object.keys(a), keysB = Object.keys(b);
      if (keysA.length !== keysB.length) return false;
      return keysA.every(key => keysB.includes(key) && deepEquals(a[key], b[key]));
    }
    return false;
  };
  \<close>
  The first equation is the branch of two objects (distinct references of type
  \<^verbatim>\<open>'object'\<close>, neither \<^verbatim>\<open>null\<close> nor an array); the second one covers every other
  pair of operands.
\<close>

lemma size_map_of:
  "map_of kv key = Some v \<Longrightarrow> size v < Suc (size_list (size_prod (\<lambda>_. 0) size) kv)"
  by (induction kv) (auto split: if_splits)

function (sequential) deepEquals :: "jv \<Rightarrow> jv \<Rightarrow> bool" where
  "deepEquals (JObj a) (JObj b) =
     (length (map fst a) = length (map fst b) \<and>
      list_all (\<lambda>key.
         (case map_of a key of
            None \<Rightarrow> False
          | Some va \<Rightarrow>
              (case map_of b key of
                 None \<Rightarrow> False
               | Some vb \<Rightarrow> deepEquals va vb))) (map fst a))"
| "deepEquals a b =
     (if strict_eq a b then True
      else if loose_null a \<or> loose_null b \<or> typeof a \<noteq> typeof b then False
      else False)"
  by pat_completeness auto
termination
  by (relation "measure (\<lambda>(a, b). size a)") (auto dest: size_map_of)

section \<open>Paths\<close>

text \<open>
  \<^verbatim>\<open>
  const isValidPath = path => typeof path === 'string' && path.trim().length > 0 && !path.includes('..');
  const getPathParts = path => path.split('.').filter(Boolean);
  \<close>
\<close>

definition is_ws :: "char \<Rightarrow> bool" where
  "is_ws c = (c \<in> {CHR 0x09, CHR 0x0A, CHR 0x0B, CHR 0x0C, CHR 0x0D, CHR 0x20, CHR 0xA0})"

definition trim :: "string \<Rightarrow> string" where
  "trim s = rev (dropWhile is_ws (rev (dropWhile is_ws s)))"

fun startsWith :: "string \<Rightarrow> string \<Rightarrow> bool" where
  "startsWith s [] = True"
| "startsWith [] (p # ps) = False"
| "startsWith (c # cs) (p # ps) = (c = p \<and> startsWith cs ps)"

fun includes_str :: "string \<Rightarrow> string \<Rightarrow> bool" where
  "includes_str [] sub = (sub = [])"
| "includes_str (c # cs) sub = (startsWith (c # cs) sub \<or> includes_str cs sub)"

definition isValidPath :: "string \<Rightarrow> bool" where
  "isValidPath path = (length (trim path) > 0 \<and> \<not> includes_str path ''..'')"

text \<open>\<^verbatim>\<open>s.split('.')\<close>: the pieces between the dots, empty pieces included.\<close>

fun split_dot :: "string \<Rightarrow> string list" where
  "split_dot [] = [[]]"
| "split_dot (c # cs) =
     (if c = CHR ''.'' then [] # split_dot cs
      else (case split_dot cs of
              [] \<Rightarrow> [[c]]
            | w # ws \<Rightarrow> (c # w) # ws))"

definition getPathParts :: "string \<Rightarrow> string list" where
  "getPathParts path = filter (\<lambda>w. w \<noteq> []) (split_dot path)"

text \<open>\<^verbatim>\<open>parts.join('.')\<close>\<close>

fun join_dot :: "string list \<Rightarrow> string" where
  "join_dot [] = []"
| "join_dot [w] = w"
| "join_dot (w # ws) = w @ ''.'' @ join_dot ws"

section \<open>Property access\<close>

text \<open>Decimal numeral of a natural number, for the index properties of a string.\<close>

fun digit_char :: "nat \<Rightarrow> char" where
  "digit_char n = char_of (48 + n)"

fun decimal :: "nat \<Rightarrow> string" where
  "decimal n = (if n < 10 then [digit_char n] else decimal (n div 10) @ [digit_char (n mod 10)])"

text \<open>
  \<^verbatim>\<open>current?.[part]\<close>: \<^verbatim>\<open>undefined\<close> on \<^verbatim>\<open>null\<close> and \<^verbatim>\<open>undefined\<close>; the own property
  of an object; on a string its own properties \<^verbatim>\<open>length\<close> and the character indices;
  no own property on the other primitives.
\<close>

fun getProp :: "jv \<Rightarrow> string \<Rightarrow> jv" where
  "getProp (JObj kv) part = (case map_of kv part of None \<Rightarrow> JUndef | Some v \<Rightarrow> v)"
| "getProp (JStr s) part =
     (if part = ''length'' then JNum (int (length s))
      else (case find (\<lambda>i. decimal i = part) [0 ..< length s] of
              None \<Rightarrow> JUndef
            | Some i \<Rightarrow> JStr [s ! i]))"
| "getProp _ part = JUndef"

text \<open>
  The traversal loop of \<^verbatim>\<open>getState\<close>; \<open>None\<close> is the early
  \<^verbatim>\<open>return defaultValue\<close>.
  \<^verbatim>\<open>
  for (const part of parts) {
    if (current?.[part] === undefined) return defaultValue;
    current = current[part];
  }
  return current;
  \<close>
\<close>

fun walk :: "jv \<Rightarrow> string list \<Rightarrow> jv option" where
  "walk current [] = Some current"
| "walk current (part # parts) =
     (if getProp current part = JUndef then None else walk (getProp current part) parts)"

text \<open>
  The write loop shared by \<^verbatim>\<open>_setStateImmediate\<close> and \<^verbatim>\<open>_processBatchedUpdates\<close>:
  \<^verbatim>\<open>
  let current = this.state;
  for (let i = 0; i < parts.length - 1; i++) {
    const part = parts[i];
    if (current[part] == null || typeof current[part] !== 'object') current[part] = {};
    current = current[part];
  }
  current[parts[parts.length - 1]] = finalValue;
  \<close>
  With no part at all the loop does not run and the last line writes the property whose
  name is the string conversion of \<^verbatim>\<open>parts[-1]\<close>, that is \<^verbatim>\<open>"undefined"\<close>.
\<close>

fun child_object :: "(string \<times> jv) list \<Rightarrow> string \<Rightarrow> (string \<times> jv) list" where
  "child_object obj part =
     (case map_of obj part of
        Some (JObj kv) \<Rightarrow> kv
      | _ \<Rightarrow> [])"

fun writePath :: "(string \<times> jv) list \<Rightarrow> string list \<Rightarrow> jv \<Rightarrow> (string \<times> jv) list" where
  "writePath obj [] v = AList.update ''undefined'' v obj"
| "writePath obj [part] v = AList.update part v obj"
| "writePath obj (part # parts) v =
     AList.update part (JObj (writePath (child_object obj part) parts v)) obj"

section \<open>Callbacks\<close>

text \<open>
  Middleware and subscriber callbacks are user code. A callback is modelled by the
  sequence of calls it makes into the state manager: it reads with \<^verbatim>\<open>getState\<close> (and
  goes on depending on the value read), writes with \<^verbatim>\<open>setState\<close>, and finally returns a
  value or throws. Other interactions (subscribing, batching, touching the tree
  object directly) are outside the model.
\<close>

datatype prog =
    Ret jv
  | Throw string
  | GetState string jv bool "jv \<Rightarrow> prog"
  | SetState string jv prog

datatype exn = UserError string | ReferenceError string

datatype 'a outcome = Returned 'a | Thrown exn

text \<open>What a run leaves behind for an observer: callback invocations and console output.\<close>

datatype event =
    CallInternal nat
  | CallExternal nat jv jv string
  | ConsoleWarn string
  | ConsoleError string

record mwarg =
  mw_path :: string
  mw_oldValue :: jv
  mw_newValue :: jv
  mw_context :: jv
  mw_state :: "(string \<times> jv) list"

type_synonym middleware = "mwarg \<Rightarrow> prog"

text \<open>An internal subscriber is a zero-argument function; its number is its identity.\<close>

type_synonym internal_sub = "nat \<times> prog"

text \<open>
  An external subscription is the object \<^verbatim>\<open>{ callback, hierarchical }\<close>; its number is
  its identity; the callback receives \<^verbatim>\<open>(newValue, oldValue, changedPath)\<close>.
\<close>

type_synonym external_sub = "nat \<times> bool \<times> (jv \<Rightarrow> jv \<Rightarrow> string \<Rightarrow> prog)"

record update =
  upd_path :: string
  upd_value :: jv
  upd_context :: jv

section \<open>StateManager\<close>

text \<open>
  The fields of \<^verbatim>\<open>class StateManager\<close>. \<^verbatim>\<open>Map\<close>s and \<^verbatim>\<open>Set\<close>s are lists in insertion
  order. The dependency sets installed in \<^verbatim>\<open>currentTracking\<close> are shared objects, so
  they live in a store (\<open>trackingSets\<close>, addressed by position) and \<open>currentTracking\<close>
  is \<^verbatim>\<open>null\<close> or an address. \<open>allocated\<close> counts the subscription objects created so
  far and \<open>trace\<close> records the observable events; \<^verbatim>\<open>initialState\<close>, \<^verbatim>\<open>maxUpdateDepth\<close>
  and \<^verbatim>\<open>updateDepth\<close> are never read by the functions modelled here (the last two by no
  function of the class) and are left out, as is the \<^verbatim>\<open>timestamp\<close> of a queued update.
\<close>

record sm =
  state :: "(string \<times> jv) list"
  middleware :: "middleware list"
  subscribers :: "(string \<times> internal_sub list) list"
  externalSubscribers :: "(string \<times> external_sub list) list"
  trackingSets :: "string list list"
  currentTracking :: "nat option"
  isUpdating :: bool
  currentlyUpdating :: "string list"
  isBatching :: bool
  batchQueue :: "update list"
  batchedPaths :: "string list"
  allocated :: nat
  trace :: "event list"

type_synonym 'a result = "('a outcome \<times> sm) option"

text \<open>The type of \<^verbatim>\<open>setState\<close> as seen by a nested call; \<open>None\<close> is a call that does not return.\<close>

type_synonym setter = "string \<Rightarrow> jv \<Rightarrow> jv \<Rightarrow> sm \<Rightarrow> unit result"

definition new_StateManager :: "(string \<times> jv) list \<Rightarrow> middleware list \<Rightarrow> sm" where
  "new_StateManager initialState mws =
     \<lparr> state = initialState, middleware = mws, subscribers = [], externalSubscribers = [],
       trackingSets = [], currentTracking = None, isUpdating = False, currentlyUpdating = [],
       isBatching = False, batchQueue = [], batchedPaths = [], allocated = 0, trace = [] \<rparr>"

definition set_add :: "'a \<Rightarrow> 'a list \<Rightarrow> 'a list" where
  "set_add x xs = (if x \<in> set xs then xs else xs @ [x])"

definition set_delete :: "'a \<Rightarrow> 'a list \<Rightarrow> 'a list" where
  "set_delete x xs = filter (\<lambda>y. y \<noteq> x) xs"

definition emit :: "event \<Rightarrow> sm \<Rightarrow> sm" where
  "emit e s = s\<lparr>trace := trace s @ [e]\<rparr>"

text \<open>\<^verbatim>\<open>this.currentTracking?.add(path)\<close>\<close>

definition track_add :: "string \<Rightarrow> sm \<Rightarrow> sm" where
  "track_add path s =
     (case currentTracking s of
        None \<Rightarrow> s
      | Some a \<Rightarrow>
          if a < length (trackingSets s)
          then s\<lparr>trackingSets := (trackingSets s)[a := set_add path (trackingSets s ! a)]\<rparr>
          else s)"

text \<open>
  \<^verbatim>\<open>
  getState(path, defaultValue = null, track = true) {
    if (!isValidPath(path)) return defaultValue;
    if (track) this.currentTracking?.add(path);
    const parts = getPathParts(path);
    let current = this.state;
    for (const part of parts) { ... }
    return current;
  }
  \<close>
  An argument \<^verbatim>\<open>undefined\<close> takes the parameter's default \<^verbatim>\<open>null\<close>.
\<close>

definition default_param :: "jv \<Rightarrow> jv \<Rightarrow> jv" where
  "default_param dflt arg = (if arg = JUndef then dflt else arg)"

definition getState :: "string \<Rightarrow> jv \<Rightarrow> bool \<Rightarrow> sm \<Rightarrow> jv \<times> sm" where
  "getState path arg track s =
     (let defaultValue = default_param JNull arg in
      if \<not> isValidPath path then (defaultValue, s)
      else
        let s' = (if track then track_add path s else s) in
        (case walk (JObj (state s')) (getPathParts path) of
           None \<Rightarrow> (defaultValue, s')
         | Some current \<Rightarrow> (current, s')))"

text \<open>Running a callback; \<open>ss\<close> is \<^verbatim>\<open>setState\<close> for the calls the callback makes.\<close>

primrec run :: "prog \<Rightarrow> setter \<Rightarrow> sm \<Rightarrow> jv result" where
  "run (Ret v) ss s = Some (Returned v, s)"
| "run (Throw msg) ss s = Some (Thrown (UserError msg), s)"
| "run (GetState path dflt track k) ss s =
     (case getState path dflt track s of (v, s') \<Rightarrow> run (k v) ss s')"
| "run (SetState path v k) ss s =
     (case ss path v (JObj []) s of
        None \<Rightarrow> None
      | Some (Thrown e, s') \<Rightarrow> Some (Thrown e, s')
      | Some (Returned _, s') \<Rightarrow> run k ss s')"

text \<open>Statement sequencing: an exception or a call that does not return ends the sequence.\<close>

definition and_then :: "(sm \<Rightarrow> unit result) \<Rightarrow> (sm \<Rightarrow> unit result) \<Rightarrow> sm \<Rightarrow> unit result" where
  "and_then f g s =
     (case f s of
        None \<Rightarrow> None
      | Some (Thrown e, s') \<Rightarrow> Some (Thrown e, s')
      | Some (Returned _, s') \<Rightarrow> g s')"

fun for_each :: "('a \<Rightarrow> sm \<Rightarrow> unit result) \<Rightarrow> 'a list \<Rightarrow> sm \<Rightarrow> unit result" where
  "for_each f [] s = Some (Returned (), s)"
| "for_each f (x # xs) s = and_then (f x) (for_each f xs) s"

definition completed :: "sm \<Rightarrow> unit result" where
  "completed s = Some (Returned (), s)"

subsection \<open>Subscribing\<close>

text \<open>
  \<^verbatim>\<open>
  subscribeInternal(path, callback) {
    if (!this.subscribers.has(path)) this.subscribers.set(path, new Set());
    this.subscribers.get(path).add(callback);
    ...
  }
  subscribe(path, callback, hierarchical = true) {
    if (!this.externalSubscribers.has(path)) this.externalSubscribers.set(path, new Set());
    const subscription = { callback, hierarchical };
    this.externalSubscribers.get(path).add(subscription);
    ...
  }
  \<close>
  The unsubscribe closures they return are not modelled.
\<close>

definition entries_of :: "(string \<times> 'a list) list \<Rightarrow> string \<Rightarrow> 'a list" where
  "entries_of m path = (case map_of m path of None \<Rightarrow> [] | Some xs \<Rightarrow> xs)"

definition callback_add :: "internal_sub \<Rightarrow> internal_sub list \<Rightarrow> internal_sub list" where
  "callback_add callback subs =
     (if fst callback \<in> set (map fst subs) then subs else subs @ [callback])"

definition subscribeInternal :: "string \<Rightarrow> internal_sub \<Rightarrow> sm \<Rightarrow> sm" where
  "subscribeInternal path callback s =
     (let m = (if map_of (subscribers s) path = None
               then AList.update path [] (subscribers s) else subscribers s)
      in s\<lparr>subscribers := AList.update path (callback_add callback (entries_of m path)) m\<rparr>)"



subsection \<open>Notification\<close>

text \<open>
  \<^verbatim>\<open>
  _triggerPathSubscribers(path) {
    const subs = this.subscribers.get(path);
    if (subs && subs.size > 0) {
      new Set(subs).forEach(callback => {
        try {
          const oldTracking = this.currentTracking;
          const newTracking = new Set();
          this.currentTracking = newTracking;
          callback();
          this.currentTracking = oldTracking;
          newTracking.forEach(newPath => {
            const existingSubs = this.subscribers.get(newPath);
            if (!existingSubs || !existingSubs.has(callback)) {
              this.subscribeInternal(newPath, callback);
            }
          });
        } catch (error) {
          console.error(log.e('Subscriber error:', error), 'application');
          this.currentTracking = oldTracking;
        }
      });
    }
  }
  \<close>
  \<^verbatim>\<open>oldTracking\<close> is a \<^verbatim>\<open>const\<close> of the \<^verbatim>\<open>try\<close> block and no outer scope declares that
  name, so the last statement of the \<^verbatim>\<open>catch\<close> block reads an undeclared variable: it
  throws a \<^verbatim>\<open>ReferenceError\<close>, which leaves the \<^verbatim>\<open>forEach\<close> and the method.
\<close>

definition tracked :: "nat \<Rightarrow> sm \<Rightarrow> string list" where
  "tracked a s = (if a < length (trackingSets s) then trackingSets s ! a else [])"

definition resubscribe :: "internal_sub \<Rightarrow> string \<Rightarrow> sm \<Rightarrow> sm" where
  "resubscribe callback newPath s =
     (case map_of (subscribers s) newPath of
        None \<Rightarrow> subscribeInternal newPath callback s
      | Some existingSubs \<Rightarrow>
          if fst callback \<in> set (map fst existingSubs) then s
          else subscribeInternal newPath callback s)"

definition trigger_callback :: "setter \<Rightarrow> internal_sub \<Rightarrow> sm \<Rightarrow> unit result" where
  "trigger_callback ss callback s =
     (let oldTracking = currentTracking s;
          newTracking = length (trackingSets s);
          s1 = s\<lparr>trackingSets := trackingSets s @ [[]], currentTracking := Some newTracking\<rparr>
      in case run (snd callback) ss (emit (CallInternal (fst callback)) s1) of
           None \<Rightarrow> None
         | Some (Returned _, s2) \<Rightarrow>
             (let s3 = s2\<lparr>currentTracking := oldTracking\<rparr>
              in Some (Returned (), fold (resubscribe callback) (tracked newTracking s3) s3))
         | Some (Thrown error, s2) \<Rightarrow>
             Some (Thrown (ReferenceError ''oldTracking is not defined''),
                   emit (ConsoleError ''Subscriber error:'') s2))"

definition triggerPathSubscribers :: "setter \<Rightarrow> string \<Rightarrow> sm \<Rightarrow> unit result" where
  "triggerPathSubscribers ss path s =
     (case map_of (subscribers s) path of
        None \<Rightarrow> completed s
      | Some subs \<Rightarrow>
          if length subs > 0 then for_each (trigger_callback ss) subs s else completed s)"

text \<open>
  \<^verbatim>\<open>
  _notifySubscribers(path, newValue, oldValue) {
    this._triggerPathSubscribers(path);
    const parts = getPathParts(path);
    for (let i = parts.length - 1; i > 0; i--) {
      this._triggerPathSubscribers(parts.slice(0, i).join('.'));
    }
    const prefix = path ? path + '.' : '';
    const allPaths = new Set([...this.subscribers.keys(), ...this.externalSubscribers.keys()]);
    allPaths.forEach(subscriberPath => {
      if (subscriberPath.startsWith(prefix) && subscriberPath !== path) {
        this._triggerPathSubscribers(subscriberPath);
      }
    });
  }
  \<close>
\<close>

definition all_paths :: "sm \<Rightarrow> string list" where
  "all_paths s = fold set_add (map fst (subscribers s) @ map fst (externalSubscribers s)) []"

definition notifySubscribers :: "setter \<Rightarrow> string \<Rightarrow> sm \<Rightarrow> unit result" where
  "notifySubscribers ss path s =
     (let parts = getPathParts path;
          prefix = (if path \<noteq> [] then path @ ''.'' else [])
      in and_then (triggerPathSubscribers ss path)
          (and_then
             (for_each (\<lambda>i. triggerPathSubscribers ss (join_dot (take i parts)))
                (rev [1 ..< length parts]))
             (\<lambda>s'. for_each
                (\<lambda>subscriberPath.
                   if startsWith subscriberPath prefix \<and> subscriberPath \<noteq> path
                   then triggerPathSubscribers ss subscriberPath else completed)
                (all_paths s') s')) s)"

text \<open>
  \<^verbatim>\<open>
  _notifyExternalSubscribers(changedPath, newValue, oldValue) {
    this.externalSubscribers.forEach((subscriptions, subscribedPath) => {
      subscriptions.forEach(({ callback, hierarchical }) => {
        const shouldNotify = hierarchical ?
          (changedPath === subscribedPath || changedPath.startsWith(subscribedPath + '.')) :
          changedPath === subscribedPath;
        if (shouldNotify) {
          try {
            callback(newValue, oldValue, changedPath);
          } catch (error) {
            console.error(log.e('External subscriber error:', error), 'application');
          }
        }
      });
    });
  }
  \<close>
\<close>

definition shouldNotify :: "bool \<Rightarrow> string \<Rightarrow> string \<Rightarrow> bool" where
  "shouldNotify hierarchical changedPath subscribedPath =
     (if hierarchical
      then changedPath = subscribedPath \<or> startsWith changedPath (subscribedPath @ ''.'')
      else changedPath = subscribedPath)"

definition call_external :: "setter \<Rightarrow> external_sub \<Rightarrow> jv \<Rightarrow> jv \<Rightarrow> string \<Rightarrow> sm \<Rightarrow> unit result" where
  "call_external ss subscription newValue oldValue changedPath s =
     (case subscription of (ident, hierarchical, callback) \<Rightarrow>
        (case run (callback newValue oldValue changedPath) ss
                (emit (CallExternal ident newValue oldValue changedPath) s) of
           None \<Rightarrow> None
         | Some (Returned _, s') \<Rightarrow> Some (Returned (), s')
         | Some (Thrown error, s') \<Rightarrow>
             Some (Returned (), emit (ConsoleError ''External subscriber error:'') s')))"

definition notifyExternalSubscribers :: "setter \<Rightarrow> string \<Rightarrow> jv \<Rightarrow> jv \<Rightarrow> sm \<Rightarrow> unit result" where
  "notifyExternalSubscribers ss changedPath newValue oldValue s =
     for_each
       (\<lambda>(subscribedPath, subscriptions).
          for_each
            (\<lambda>subscription.
               if shouldNotify (fst (snd subscription)) changedPath subscribedPath
               then call_external ss subscription newValue oldValue changedPath
               else completed)
            subscriptions)
       (externalSubscribers s) s"

subsection \<open>Writing\<close>

text \<open>
  The middleware loop of \<^verbatim>\<open>_setStateImmediate\<close> and \<^verbatim>\<open>_processBatchedUpdates\<close> (they
  differ in the logged message only):
  \<^verbatim>\<open>
  for (const middleware of this.middleware) {
    try {
      const result = middleware({ path, oldValue, newValue: finalValue, context, state: this.state });
      if (result !== undefined) finalValue = result;
    } catch (error) {
      console.error(log.e('Middleware error', {...}, 'application'));
    }
  }
  \<close>
\<close>

fun run_middleware ::
  "setter \<Rightarrow> string \<Rightarrow> middleware list \<Rightarrow> string \<Rightarrow> jv \<Rightarrow> jv \<Rightarrow> jv \<Rightarrow> sm \<Rightarrow> (jv \<times> sm) option" where
  "run_middleware ss msg [] path oldValue context finalValue s = Some (finalValue, s)"
| "run_middleware ss msg (mw # mws) path oldValue context finalValue s =
     (case run (mw \<lparr> mw_path = path, mw_oldValue = oldValue, mw_newValue = finalValue,
                      mw_context = context, mw_state = state s \<rparr>) ss s of
        None \<Rightarrow> None
      | Some (Returned result, s') \<Rightarrow>
          run_middleware ss msg mws path oldValue context
            (if result \<noteq> JUndef then result else finalValue) s'
      | Some (Thrown error, s') \<Rightarrow>
          run_middleware ss msg mws path oldValue context finalValue
            (emit (ConsoleError msg) s'))"

text \<open>
  \<^verbatim>\<open>
  _setStateImmediate(path, value, context = {}) {
    const oldValue = this.getState(path);
    let finalValue = value;
    for (const middleware of this.middleware) { ... }
    if (deepEquals(oldValue, finalValue)) return;
    const parts = getPathParts(path);
    ... (the write loop) ...
    if (!this.isUpdating) {
      this.isUpdating = true;
      if (!this.currentlyUpdating) this.currentlyUpdating = new Set();
      this.currentlyUpdating.add(path);
      this._notifySubscribers(path, finalValue, oldValue);
      this._notifyExternalSubscribers(path, finalValue, oldValue);
      this.currentlyUpdating.delete(path);
      this.isUpdating = false;
    }
  }
  \<close>
\<close>

definition setStateImmediate :: "setter \<Rightarrow> string \<Rightarrow> jv \<Rightarrow> jv \<Rightarrow> sm \<Rightarrow> unit result" where
  "setStateImmediate ss path v arg s =
     (let context = default_param (JObj []) arg in
      case getState path JUndef True s of (oldValue, s0) \<Rightarrow>
      (case run_middleware ss ''Middleware error'' (middleware s0) path oldValue context v s0 of
         None \<Rightarrow> None
       | Some (finalValue, s1) \<Rightarrow>
           if deepEquals oldValue finalValue then completed s1
           else
             let s2 = s1\<lparr>state := writePath (state s1) (getPathParts path) finalValue\<rparr> in
             if \<not> isUpdating s2 then
               and_then (notifySubscribers ss path)
                 (and_then (notifyExternalSubscribers ss path finalValue oldValue)
                    (\<lambda>s'. completed
                       (s'\<lparr>currentlyUpdating := set_delete path (currentlyUpdating s'),
                           isUpdating := False\<rparr>)))
                 (s2\<lparr>isUpdating := True,
                     currentlyUpdating := set_add path (currentlyUpdating s2)\<rparr>)
             else completed s2))"

text \<open>
  \<^verbatim>\<open>
  _hasCircularUpdate(path) {
    if (!this.currentlyUpdating) this.currentlyUpdating = new Set();
    if (this.currentlyUpdating.has(path)) {
      console.warn(log.w('Circular dependency detected', { path }, 'framework'));
      return true;
    }
    return false;
  }
  _queueBatchedUpdate(path, value, context) {
    this.batchQueue = this.batchQueue.filter(update => update.path !== path);
    this.batchQueue.push({ path, value, context, timestamp: Date.now() });
    this.batchedPaths.add(path);
  }
  \<close>
\<close>

definition hasCircularUpdate :: "string \<Rightarrow> sm \<Rightarrow> bool \<times> sm" where
  "hasCircularUpdate path s =
     (if path \<in> set (currentlyUpdating s)
      then (True, emit (ConsoleWarn ''Circular dependency detected'') s)
      else (False, s))"

definition queueBatchedUpdate :: "string \<Rightarrow> jv \<Rightarrow> jv \<Rightarrow> sm \<Rightarrow> sm" where
  "queueBatchedUpdate path v context s =
     s\<lparr>batchQueue := filter (\<lambda>u. upd_path u \<noteq> path) (batchQueue s)
                        @ [\<lparr> upd_path = path, upd_value = v, upd_context = context \<rparr>],
       batchedPaths := set_add path (batchedPaths s)\<rparr>"

text \<open>
  \<^verbatim>\<open>
  setState(path, value, context = {}) {
    if (!isValidPath(path) || this._hasCircularUpdate(path)) return;
    if (this.isBatching) {
      this._queueBatchedUpdate(path, value, context);
      return;
    }
    this._setStateImmediate(path, value, context);
  }
  \<close>
  The body of \<^verbatim>\<open>setState\<close>, with \<open>ss\<close> standing for the method itself in the calls that
  callbacks make.
\<close>

definition setState_body :: "setter \<Rightarrow> string \<Rightarrow> jv \<Rightarrow> jv \<Rightarrow> sm \<Rightarrow> unit result" where
  "setState_body ss path v arg s =
     (let context = default_param (JObj []) arg in
      if \<not> isValidPath path then completed s
      else
        (case hasCircularUpdate path s of
           (True, s') \<Rightarrow> completed s'
         | (False, s') \<Rightarrow>
             if isBatching s' then completed (queueBatchedUpdate path v context s')
             else setStateImmediate ss path v context s'))"

text \<open>
  \<^verbatim>\<open>setState\<close> calls itself through the callbacks it runs, and nothing bounds that
  recursion. The first argument is the call depth that is still available: with depth
  \<open>0\<close> the call does not return. A call returns in the program when some depth suffices.
\<close>

primrec setState :: "nat \<Rightarrow> string \<Rightarrow> jv \<Rightarrow> jv \<Rightarrow> sm \<Rightarrow> unit result" where
  "setState 0 path v context s = None"
| "setState (Suc depth) path v context s = setState_body (setState depth) path v context s"

subsection \<open>Batching\<close>









section \<open>AsyncResolver\<close>

text \<open>
  \<^verbatim>\<open>
  const createPromisify = () => {
    const activePromises = new Set();
    let isTracking = false;
    const subscribers = new Set();
    ...
    const trackingPromisify = result => {
      const promise = result?.then ? result : Promise.resolve(result);
      if (isTracking && promise !== result) {
        activePromises.add(promise);
        promise.finally(() => {
          activePromises.delete(promise);
          setTimeout(checkAllComplete, 0);
        });
      }
      return promise;
    };
    return {
      promisify: trackingPromisify,
      startTracking: () => { isTracking = true; activePromises.clear(); },
      stopTracking: () => { isTracking = false; subscribers.clear(); },
      ...
    };
  };
  \<close>
  An argument of \<^verbatim>\<open>promisify\<close> is a plain value or a promise object; a promise object is
  identified by its allocation number. \<^verbatim>\<open>Promise.resolve\<close> of a non-thenable allocates
  a new promise (\<open>promisesMade\<close> counts them, \<open>resolvedWith\<close> remembers the wrapped
  value). The \<^verbatim>\<open>finally\<close> handler runs in a later task and is not part of the call.
\<close>

datatype aval = Plain jv | PromiseObj nat

record resolver =
  activePromises :: "nat list"
  isTracking :: bool
  promisesMade :: nat
  resolvedWith :: "(nat \<times> jv) list"

text \<open>\<^verbatim>\<open>value?.then\<close> as a condition (also \<^verbatim>\<open>_isPromiseLike\<close> of the renderer).\<close>

fun has_then :: "aval \<Rightarrow> bool" where
  "has_then (PromiseObj _) = True"
| "has_then (Plain v) = truthy (getProp v ''then'')"

fun Promise_resolve :: "aval \<Rightarrow> resolver \<Rightarrow> aval \<times> resolver" where
  "Promise_resolve (PromiseObj p) r = (PromiseObj p, r)"
| "Promise_resolve (Plain v) r =
     (PromiseObj (promisesMade r),
      r\<lparr>promisesMade := Suc (promisesMade r),
        resolvedWith := resolvedWith r @ [(promisesMade r, v)]\<rparr>)"

fun track_promise :: "aval \<Rightarrow> resolver \<Rightarrow> resolver" where
  "track_promise (PromiseObj p) r = r\<lparr>activePromises := set_add p (activePromises r)\<rparr>"
| "track_promise (Plain v) r = r"

definition trackingPromisify :: "aval \<Rightarrow> resolver \<Rightarrow> aval \<times> resolver" where
  "trackingPromisify result r =
     (case (if has_then result then (result, r) else Promise_resolve result r) of
        (promise, r') \<Rightarrow>
          if isTracking r' \<and> promise \<noteq> result then (promise, track_promise promise r')
          else (promise, r'))"

definition startTracking :: "resolver \<Rightarrow> resolver" where
  "startTracking r = r\<lparr>isTracking := True, activePromises := []\<rparr>"

section \<open>Component-local state\<close>

text \<open>
  \<^verbatim>\<open>
  _createComponentContext(componentId, componentStates) {
    const context = this.juris.createContext();
    context.newState = (key, initialValue) => {
      const statePath = `__local.${componentId}.${key}`;
      if (this.juris.stateManager.getState(statePath, Symbol('not-found')) === Symbol('not-found')) {
        this.juris.stateManager.setState(statePath, initialValue);
      }
      componentStates.add(statePath);
      return [
        () => this.juris.stateManager.getState(statePath, initialValue),
        value => this.juris.stateManager.setState(statePath, value)
      ];
    };
    return context;
  }
  \<close>
  Each evaluation of \<^verbatim>\<open>Symbol('not-found')\<close> creates a new symbol; \<open>symbolsMade\<close> counts
  the symbols created so far. The pair that \<^verbatim>\<open>newState\<close> returns is represented by the
  path and the initial value its two closures capture.
\<close>

record component_env =
  stateManager :: sm
  symbolsMade :: nat
  componentStates :: "string list"

definition new_Symbol :: "component_env \<Rightarrow> jv \<times> component_env" where
  "new_Symbol env = (JSym (symbolsMade env), env\<lparr>symbolsMade := Suc (symbolsMade env)\<rparr>)"

definition newState ::
  "nat \<Rightarrow> string \<Rightarrow> string \<Rightarrow> jv \<Rightarrow> component_env \<Rightarrow> ((string \<times> jv) outcome \<times> component_env) option" where
  "newState depth componentId key initialValue env =
     (let statePath = ''__local.'' @ componentId @ ''.'' @ key in
      case new_Symbol env of (notFound1, env1) \<Rightarrow>
      (case getState statePath notFound1 True (stateManager env1) of (found, m1) \<Rightarrow>
       (case new_Symbol (env1\<lparr>stateManager := m1\<rparr>) of (notFound2, env2) \<Rightarrow>
        (case (if strict_eq found notFound2
               then setState depth statePath initialValue JUndef (stateManager env2)
               else completed (stateManager env2)) of
           None \<Rightarrow> None
         | Some (Thrown e, m2) \<Rightarrow> Some (Thrown e, env2\<lparr>stateManager := m2\<rparr>)
         | Some (Returned _, m2) \<Rightarrow>
             Some (Returned (statePath, initialValue),
                   env2\<lparr>stateManager := m2,
                        componentStates := set_add statePath (componentStates env2)\<rparr>)))))"

definition local_getter :: "string \<times> jv \<Rightarrow> sm \<Rightarrow> jv \<times> sm" where
  "local_getter accessor s = getState (fst accessor) (snd accessor) True s"

definition local_setter :: "nat \<Rightarrow> string \<times> jv \<Rightarrow> jv \<Rightarrow> sm \<Rightarrow> unit result" where
  "local_setter depth accessor v s = setState depth (fst accessor) v JUndef s"

section \<open>Reactive text and children bindings\<close>

text \<open>
  One run of the closure \<^verbatim>\<open>updateText\<close> of \<^verbatim>\<open>_handleReactiveText\<close>, on the outcome of
  \<^verbatim>\<open>textFn()\<close>:
  \<^verbatim>\<open>
  let lastTextValue = null, isInitialized = false;
  const updateText = () => {
    try {
      const result = textFn();
      if (this._isPromiseLike(result)) {
        promisify(result).then(resolvedText => {
          if (!isInitialized || resolvedText !== lastTextValue) {
            element.textContent = resolvedText;
            lastTextValue = resolvedText;
            isInitialized = true;
          }
        }).catch(...);
      } else {
        if (!isInitialized || result !== lastTextValue) {
          element.textContent = result;
          lastTextValue = result;
          isInitialized = true;
        }
      }
    } catch (error) {
      console.error(log.e('Error in reactive text function:', error), 'application');
    }
  };
  \<close>
  \<open>textContent\<close> is the value last assigned to \<^verbatim>\<open>element.textContent\<close> (the string
  conversion done by the DOM is not modelled). A promise-like result changes nothing
  during the run itself: the assignment happens when the promise resolves, by
  \<open>text_resolved\<close>.
\<close>

record text_binding =
  textContent :: jv
  lastTextValue :: jv
  textInitialized :: bool

definition new_text_binding :: "jv \<Rightarrow> text_binding" where
  "new_text_binding content =
     \<lparr> textContent = content, lastTextValue = JNull, textInitialized = False \<rparr>"

definition text_resolved :: "jv \<Rightarrow> text_binding \<Rightarrow> text_binding" where
  "text_resolved resolvedText b =
     (if \<not> textInitialized b \<or> \<not> strict_eq resolvedText (lastTextValue b)
      then b\<lparr>textContent := resolvedText, lastTextValue := resolvedText, textInitialized := True\<rparr>
      else b)"

fun updateText :: "aval outcome \<Rightarrow> text_binding \<Rightarrow> text_binding" where
  "updateText (Thrown error) b = b"
| "updateText (Returned result) b =
     (if has_then result then b
      else (case result of
              Plain v \<Rightarrow>
                if \<not> textInitialized b \<or> \<not> strict_eq v (lastTextValue b)
                then b\<lparr>textContent := v, lastTextValue := v, textInitialized := True\<rparr>
                else b
            | PromiseObj p \<Rightarrow> b))"

text \<open>
  One run of \<^verbatim>\<open>updateChildren\<close> of \<^verbatim>\<open>_handleReactiveChildren\<close>, synchronous branch:
  \<^verbatim>\<open>
  if (result !== "ignore" && (!isInitialized || !deepEquals(result, lastChildrenResult))) {
    this._updateChildren(element, result);
    lastChildrenResult = result;
    isInitialized = true;
  }
  \<close>
  \<open>renderedFrom\<close> is the description last handed to \<^verbatim>\<open>_updateChildren\<close>, which rebuilds
  the element's children from it (and itself returns at once on \<^verbatim>\<open>"ignore"\<close>).
\<close>

record children_binding =
  renderedFrom :: jv
  lastChildrenResult :: jv
  childrenInitialized :: bool

definition updateChildren_of :: "jv \<Rightarrow> children_binding \<Rightarrow> children_binding" where
  "updateChildren_of children b =
     (if strict_eq children (JStr ''ignore'') then b else b\<lparr>renderedFrom := children\<rparr>)"

fun updateChildren :: "aval outcome \<Rightarrow> children_binding \<Rightarrow> children_binding" where
  "updateChildren (Thrown error) b = b"
| "updateChildren (Returned result) b =
     (if has_then result then b
      else (case result of
              Plain v \<Rightarrow>
                if \<not> strict_eq v (JStr ''ignore'') \<and>
                   (\<not> childrenInitialized b \<or> \<not> deepEquals v (lastChildrenResult b))
                then (updateChildren_of v b)\<lparr>lastChildrenResult := v, childrenInitialized := True\<rparr>
                else b
            | PromiseObj p \<Rightarrow> b))"

section \<open>Scenarios\<close>

text \<open>Projections of a result, and the callbacks and start states of the examples below.\<close>

definition trace_of :: "'a result \<Rightarrow> event list option" where
  "trace_of r = map_option (\<lambda>(out, s). trace s) r"

definition outcome_of :: "'a result \<Rightarrow> 'a outcome option" where
  "outcome_of r = map_option fst r"


definition manager_of :: "'a result \<Rightarrow> sm" where
  "manager_of r = (case r of Some (out, s) \<Rightarrow> s | None \<Rightarrow> new_StateManager [] [])"





text \<open>Two internal subscribers of \<^verbatim>\<open>x\<close>; the first one throws.\<close>

definition throwing_first :: sm where
  "throwing_first =
     subscribeInternal ''x'' (2, Ret JUndef)
       (subscribeInternal ''x'' (1, Throw ''boom'') (new_StateManager [] []))"

definition new_resolver :: resolver where
  "new_resolver = \<lparr> activePromises = [], isTracking = False, promisesMade = 0, resolvedWith = [] \<rparr>"

definition new_component_env :: "sm \<Rightarrow> component_env" where
  "new_component_env m = \<lparr> stateManager = m, symbolsMade = 0, componentStates = [] \<rparr>"




section \<open>Observations\<close>

text \<open>The callback invocations in a trace.\<close>

fun is_call :: "event \<Rightarrow> bool" where
  "is_call (CallInternal _) = True"
| "is_call (CallExternal _ _ _ _) = True"
| "is_call _ = False"

definition calls :: "event list \<Rightarrow> event list" where
  "calls tr = filter is_call tr"

text \<open>
  A step is silent when it leaves \<^verbatim>\<open>isUpdating\<close> set, invokes no callback and leaves the
  internal subscriptions as they are; a setter is silent when it is so from every state
  with \<^verbatim>\<open>isUpdating\<close> set.
\<close>

definition silent :: "sm \<Rightarrow> sm \<Rightarrow> bool" where
  "silent s s' = (isUpdating s' \<and> calls (trace s') = calls (trace s) \<and> subscribers s' = subscribers s)"





























section \<open>Properties\<close>

subsection \<open>Basic facts\<close>

lemma track_add_fields [simp]:
  "state (track_add p s) = state s"
  "middleware (track_add p s) = middleware s"
  "subscribers (track_add p s) = subscribers s"
  "externalSubscribers (track_add p s) = externalSubscribers s"
  "currentTracking (track_add p s) = currentTracking s"
  "isUpdating (track_add p s) = isUpdating s"
  "currentlyUpdating (track_add p s) = currentlyUpdating s"
  "isBatching (track_add p s) = isBatching s"
  "batchQueue (track_add p s) = batchQueue s"
  "batchedPaths (track_add p s) = batchedPaths s"
  "allocated (track_add p s) = allocated s"
  "trace (track_add p s) = trace s"
  by (simp_all add: track_add_def split: option.splits)

lemma emit_fields [simp]:
  "state (emit e s) = state s"
  "middleware (emit e s) = middleware s"
  "subscribers (emit e s) = subscribers s"
  "externalSubscribers (emit e s) = externalSubscribers s"
  "trackingSets (emit e s) = trackingSets s"
  "currentTracking (emit e s) = currentTracking s"
  "isUpdating (emit e s) = isUpdating s"
  "currentlyUpdating (emit e s) = currentlyUpdating s"
  "isBatching (emit e s) = isBatching s"
  "batchQueue (emit e s) = batchQueue s"
  "batchedPaths (emit e s) = batchedPaths s"
  "allocated (emit e s) = allocated s"
  "trace (emit e s) = trace s @ [e]"
  by (simp_all add: emit_def)














subsection \<open>Subscriber errors\<close>

text \<open>
  C2. Claim: during one notification wave an exception thrown by one subscriber callback
  is caught and logged, every other subscriber of the wave still runs, and no exception
  escapes to the caller of \<^verbatim>\<open>setState\<close>.
  The code does not do this for internal subscribers. With two internal subscribers of
  \<^verbatim>\<open>x\<close>, the first of which throws, \<^verbatim>\<open>setState('x', 1)\<close> ends with a \<^verbatim>\<open>ReferenceError\<close>
  thrown to its caller; the second subscriber is never called, and the manager is
  left with \<^verbatim>\<open>isUpdating\<close> set and \<^verbatim>\<open>x\<close> in \<^verbatim>\<open>currentlyUpdating\<close>.
\<close>

theorem internal_subscriber_error_escapes:
  "outcome_of (setState 1 ''x'' (JNum 1) JUndef throwing_first)
     = Some (Thrown (ReferenceError ''oldTracking is not defined''))
   \<and> trace_of (setState 1 ''x'' (JNum 1) JUndef throwing_first)
     = Some [CallInternal 1, ConsoleError ''Subscriber error:'']
   \<and> isUpdating (manager_of (setState 1 ''x'' (JNum 1) JUndef throwing_first))
   \<and> currentlyUpdating (manager_of (setState 1 ''x'' (JNum 1) JUndef throwing_first)) = [''x'']"
  by code_simp

subsection \<open>Component-local state\<close>

text \<open>
  C7. Claim: the first call of \<^verbatim>\<open>newState(key, initial)\<close> initialises the state tree at
  \<^verbatim>\<open>__local.<componentId>.<key>\<close> to \<^verbatim>\<open>initial\<close>.
  The code never does: the value read is compared with a symbol created after the read,
  so the comparison is false and \<^verbatim>\<open>setState\<close> is not called. After
  \<^verbatim>\<open>newState('count', 0)\<close> in component \<^verbatim>\<open>Counter_1\<close> on an empty tree, the tree is still
  empty; the accessor pair is returned and the path is recorded.
\<close>

theorem newState_does_not_initialise:
  "map_option (\<lambda>(out, env). (out, state (stateManager env), componentStates env))
     (newState 1 ''Counter_1'' ''count'' (JNum 0) (new_component_env (new_StateManager [] [])))
   = Some (Returned (''__local.Counter_1.count'', JNum 0), [], [''__local.Counter_1.count''])"
  by code_simp

subsection \<open>The cycle guard\<close>





subsection \<open>The completion barrier\<close>

text \<open>
  C4. Claim: while tracking is active, \<^verbatim>\<open>promisify(v)\<close> adds a promise to the active set
  only when \<^verbatim>\<open>v\<close> is a genuine thenable; a non-thenable is wrapped but never counted.
  The code does the opposite: the guard \<^verbatim>\<open>promise !== result\<close> holds exactly when the
  value was wrapped. The number \<^verbatim>\<open>5\<close> is wrapped in promise \<open>0\<close>, which is counted; an
  existing promise is returned as it is and not counted.
\<close>

theorem promisify_counts_the_wrapped_value:
  "fst (trackingPromisify (Plain (JNum 5)) (startTracking new_resolver)) = PromiseObj 0
   \<and> activePromises (snd (trackingPromisify (Plain (JNum 5)) (startTracking new_resolver))) = [0]
   \<and> activePromises (snd (trackingPromisify (PromiseObj 7) (startTracking new_resolver))) = []"
  by code_simp

text \<open>
  C4, as amended. While tracking is active, a thenable argument is returned as it is and
  the resolver is left unchanged (nothing is counted); a non-thenable argument is wrapped
  in a new promise, and that promise is added to the active set.
\<close>

theorem promisify_tracks_exactly_the_wrapped:
  assumes "isTracking r"
  shows "if has_then result
         then trackingPromisify result r = (result, r)
         else fst (trackingPromisify result r) = PromiseObj (promisesMade r)
              \<and> activePromises (snd (trackingPromisify result r))
                  = set_add (promisesMade r) (activePromises r)"
  using assms by (cases result) (simp_all add: trackingPromisify_def)

theorem promisify_tracks_exactly_the_wrapped_witness:
  "isTracking (startTracking new_resolver)
   \<and> trackingPromisify (PromiseObj 7) (startTracking new_resolver)
       = (PromiseObj 7, startTracking new_resolver)
   \<and> activePromises (snd (trackingPromisify (Plain (JStr ''v'')) (startTracking new_resolver))) = [0]"
  using promisify_tracks_exactly_the_wrapped [of "startTracking new_resolver" "PromiseObj 7"]
    promisify_tracks_exactly_the_wrapped [of "startTracking new_resolver" "Plain (JStr ''v'')"]
  by (simp add: startTracking_def new_resolver_def set_add_def)

subsection \<open>The skip sentinel\<close>

text \<open>
  C8. Claim: when the function of a reactive text binding returns the skip sentinel,
  \<^verbatim>\<open>textContent\<close> is left untouched, as for reactive children.
  The text binding has no sentinel: on the result \<^verbatim>\<open>"ignore"\<close> an element showing
  \<^verbatim>\<open>"old"\<close> gets the text \<^verbatim>\<open>"ignore"\<close>, while a children binding in the same situation
  keeps what it rendered.
\<close>

theorem text_binding_writes_the_sentinel:
  "textContent (updateText (Returned (Plain (JStr ''ignore'')))
      \<lparr> textContent = JStr ''old'', lastTextValue = JStr ''old'', textInitialized = True \<rparr>)
     = JStr ''ignore''
   \<and> renderedFrom (updateChildren (Returned (Plain (JStr ''ignore'')))
      \<lparr> renderedFrom = JStr ''old'', lastChildrenResult = JStr ''old'',
        childrenInitialized = True \<rparr>)
     = JStr ''old''"
  by code_simp

text \<open>
  C8, as amended. A run of a reactive children binding whose function returns
  \<^verbatim>\<open>"ignore"\<close> changes nothing. A run of a reactive text binding whose function returns
  \<^verbatim>\<open>"ignore"\<close> assigns that string to \<^verbatim>\<open>textContent\<close> like any other text; it changes
  nothing only when the binding has run before and its last value was already
  \<^verbatim>\<open>"ignore"\<close>.
\<close>

theorem sentinel_skips_children_not_text:
  "updateChildren (Returned (Plain (JStr ''ignore''))) c = c
   \<and> updateText (Returned (Plain (JStr ''ignore''))) b =
       (if textInitialized b \<and> lastTextValue b = JStr ''ignore'' then b
        else b\<lparr>textContent := JStr ''ignore'', lastTextValue := JStr ''ignore'',
               textInitialized := True\<rparr>)"
  by (cases "lastTextValue b") auto

subsection \<open>Reading\<close>




subsection \<open>Writes made during a notification wave\<close>

lemma silent_refl: "isUpdating s \<Longrightarrow> silent s s"
  by (simp add: silent_def)














subsection \<open>Routing of notifications\<close>













lemma subscribeInternal_only_subscribers:
  "subscribeInternal path cb s = s\<lparr>subscribers := subscribers (subscribeInternal path cb s)\<rparr>"
  by (simp add: subscribeInternal_def Let_def)

lemma resubscribe_only_subscribers:
  "resubscribe cb path s = s\<lparr>subscribers := subscribers (resubscribe cb path s)\<rparr>"
  using subscribeInternal_only_subscribers [of path cb s]
  by (simp add: resubscribe_def split: option.splits)

lemma fold_resubscribe_only_subscribers:
  "fold (resubscribe cb) ps s = s\<lparr>subscribers := subscribers (fold (resubscribe cb) ps s)\<rparr>"
proof (induction ps arbitrary: s)
  case Nil
  then show ?case by simp
next
  case (Cons p ps)
  have "fold (resubscribe cb) ps (resubscribe cb p s)
        = (resubscribe cb p s)\<lparr>subscribers := subscribers (fold (resubscribe cb) ps (resubscribe cb p s))\<rparr>"
    using Cons.IH by blast
  also have "\<dots> = s\<lparr>subscribers := subscribers (fold (resubscribe cb) ps (resubscribe cb p s))\<rparr>"
    by (subst resubscribe_only_subscribers [of cb p s]) simp
  finally show ?case by simp
qed

lemma fold_resubscribe_fields [simp]:
  "state (fold (resubscribe cb) ps s) = state s"
  "middleware (fold (resubscribe cb) ps s) = middleware s"
  "externalSubscribers (fold (resubscribe cb) ps s) = externalSubscribers s"
  "trackingSets (fold (resubscribe cb) ps s) = trackingSets s"
  "currentTracking (fold (resubscribe cb) ps s) = currentTracking s"
  "isUpdating (fold (resubscribe cb) ps s) = isUpdating s"
  "currentlyUpdating (fold (resubscribe cb) ps s) = currentlyUpdating s"
  "isBatching (fold (resubscribe cb) ps s) = isBatching s"
  "batchQueue (fold (resubscribe cb) ps s) = batchQueue s"
  "batchedPaths (fold (resubscribe cb) ps s) = batchedPaths s"
  "allocated (fold (resubscribe cb) ps s) = allocated s"
  "trace (fold (resubscribe cb) ps s) = trace s"
  by (subst fold_resubscribe_only_subscribers, simp)+


lemma completed_rel: "completed s = Some (out, s') \<Longrightarrow> (\<And>a. R a a) \<Longrightarrow> R s s'"
  by (auto simp: completed_def)









































subsection \<open>Subscribers that only observe\<close>


















subsection \<open>Repeated writes\<close>








subsection \<open>Batching\<close>



































end
